theory Spec2Isabelle
  imports Main "HOL-Library.AList"
begin

section \<open>JavaScript values\<close>

text \<open>
  The client of \<^verbatim>\<open>src/client.ts\<close> handles untyped JavaScript values: the caller's
  option objects, the request body and the parsed JSON of a response. A value is
  \<^verbatim>\<open>undefined\<close>, \<^verbatim>\<open>null\<close>, a boolean, a number, a string, an array or a plain
  object. An object is the list of its own properties in insertion order. Numbers are
  integers here: the client never computes with a number, it only tests one for
  truthiness and prints one into a message.
\<close>

datatype jsval =
    JUndefined
  | JNull
  | JBool bool
  | JNum int
  | JStr string
  | JArr "jsval list"
  | JObj "(string \<times> jsval) list"

type_synonym props = "(string \<times> jsval) list"

text \<open>\<^verbatim>\<open>o[key]\<close> on an object: the property's value, or \<^verbatim>\<open>undefined\<close> when absent.\<close>

definition get_prop :: "props \<Rightarrow> string \<Rightarrow> jsval" where
  "get_prop ps k = (case map_of ps k of None \<Rightarrow> JUndefined | Some v \<Rightarrow> v)"

text \<open>
  \<^verbatim>\<open>v.key\<close> on a value that is neither \<^verbatim>\<open>null\<close> nor \<^verbatim>\<open>undefined\<close>: arrays and
  primitives parsed from JSON have no property of the names the client reads.
\<close>

fun get_member :: "jsval \<Rightarrow> string \<Rightarrow> jsval" where
  "get_member (JObj ps) k = get_prop ps k"
| "get_member _ k = JUndefined"

text \<open>\<^verbatim>\<open>delete v.key\<close>: removes the property of an object, does nothing to another value.\<close>

fun delete_member :: "jsval \<Rightarrow> string \<Rightarrow> jsval" where
  "delete_member (JObj ps) k = JObj (AList.delete k ps)"
| "delete_member v k = v"

text \<open>
  Object spread \<^verbatim>\<open>{...a, ...b}\<close>: every property of the source is assigned to the
  target in order; a name the target already has keeps its position and takes the new
  value, a new name is appended.
\<close>

definition assign :: "props \<Rightarrow> props \<Rightarrow> props" where
  "assign target source = fold (\<lambda>(k, v) t. AList.update k v t) source target"

definition spread :: "props \<Rightarrow> props \<Rightarrow> props" where
  "spread a b = assign (assign [] a) b"

text \<open>Truthiness of a value, as \<^verbatim>\<open>||\<close>, \<^verbatim>\<open>? :\<close> and \<^verbatim>\<open>if\<close> test it.\<close>

fun truthy :: "jsval \<Rightarrow> bool" where
  "truthy JUndefined = False"
| "truthy JNull = False"
| "truthy (JBool b) = b"
| "truthy (JNum n) = (n \<noteq> 0)"
| "truthy (JStr s) = (s \<noteq> [])"
| "truthy (JArr _) = True"
| "truthy (JObj _) = True"

text \<open>\<^verbatim>\<open>typeof v === 'object' && v !== null\<close>.\<close>

fun is_object :: "jsval \<Rightarrow> bool" where
  "is_object (JArr _) = True"
| "is_object (JObj _) = True"
| "is_object _ = False"

section \<open>Client construction\<close>

text \<open>
  \<^verbatim>\<open>PorkbunConfig\<close> has two required strings and two optional fields; an omitted
  field is \<open>None\<close>.
\<close>

record PorkbunConfig =
  apiKey :: string
  secretKey :: string
  baseUrl :: "string option"
  timeout :: "int option"

text \<open>The four private fields of \<^verbatim>\<open>PorkbunClient\<close>.\<close>

record PorkbunClient =
  c_apiKey :: string
  c_secretKey :: string
  c_baseUrl :: string
  c_timeout :: int

text \<open>
  \<^verbatim>\<open>config.baseUrl || d\<close> and \<^verbatim>\<open>config.timeout || d\<close>: the left operand when it is
  truthy, the default otherwise. An omitted field, the empty string and the number 0
  are falsy.
\<close>

definition or_string :: "string option \<Rightarrow> string \<Rightarrow> string" where
  "or_string x d = (case x of None \<Rightarrow> d | Some s \<Rightarrow> if s = [] then d else s)"

definition or_number :: "int option \<Rightarrow> int \<Rightarrow> int" where
  "or_number x d = (case x of None \<Rightarrow> d | Some n \<Rightarrow> if n = 0 then d else n)"

definition default_baseUrl :: string where
  "default_baseUrl = ''https://api.porkbun.com/api/json/v3''"

definition new_PorkbunClient :: "PorkbunConfig \<Rightarrow> PorkbunClient" where
  "new_PorkbunClient config =
     \<lparr> c_apiKey = apiKey config,
       c_secretKey = secretKey config,
       c_baseUrl = or_string (baseUrl config) default_baseUrl,
       c_timeout = or_number (timeout config) 30000 \<rparr>"

section \<open>Strings\<close>

text \<open>\<^verbatim>\<open>s.includes(sub)\<close>: \<open>sub\<close> occurs in \<open>s\<close> as a contiguous substring.\<close>

fun str_includes :: "string \<Rightarrow> string \<Rightarrow> bool" where
  "str_includes [] sub = (sub = [])"
| "str_includes (c # cs) sub = (take (length sub) (c # cs) = sub \<or> str_includes cs sub)"

text \<open>Decimal digits of a number, as a template string prints it.\<close>

function show_nat :: "nat \<Rightarrow> string" where
  "show_nat n =
     (if n < 10 then [''0123456789'' ! n]
      else show_nat (n div 10) @ [''0123456789'' ! (n mod 10)])"
  by pat_completeness auto
termination
  by (relation "measure id") auto

definition show_int :: "int \<Rightarrow> string" where
  "show_int i = (if i < 0 then ''-'' @ show_nat (nat (- i)) else show_nat (nat i))"

fun join_with :: "string \<Rightarrow> string list \<Rightarrow> string" where
  "join_with sep [] = []"
| "join_with sep [x] = x"
| "join_with sep (x # y # ys) = x @ sep @ join_with sep (y # ys)"

text \<open>
  The string conversion that the \<^verbatim>\<open>Error\<close> constructor applies to its message
  argument. An array prints its elements joined by commas, \<^verbatim>\<open>null\<close> and
  \<^verbatim>\<open>undefined\<close> elements as nothing.
\<close>

fun js_toString :: "jsval \<Rightarrow> string" where
  "js_toString JUndefined = ''undefined''"
| "js_toString JNull = ''null''"
| "js_toString (JBool b) = (if b then ''true'' else ''false'')"
| "js_toString (JNum n) = show_int n"
| "js_toString (JStr s) = s"
| "js_toString (JArr xs) =
     join_with '','' (map (\<lambda>x. if x = JUndefined \<or> x = JNull then [] else js_toString x) xs)"
| "js_toString (JObj ps) = ''[object Object]''"

section \<open>Errors\<close>

text \<open>
  The classes of \<^verbatim>\<open>src/errors.ts\<close> and the built-in \<^verbatim>\<open>Error\<close>. An error object
  has the class that \<^verbatim>\<open>instanceof\<close> tests, a name, a message, the \<^verbatim>\<open>status\<close> tag
  of \<^verbatim>\<open>PorkbunError\<close> and the \<^verbatim>\<open>limits\<close> of \<^verbatim>\<open>PorkbunRateLimitError\<close>
  (\<^verbatim>\<open>undefined\<close> where the class has none or the constructor was given none). The
  \<^verbatim>\<open>response\<close> field of \<^verbatim>\<open>PorkbunError\<close> is never given a value by the client and
  is left out. Errors of the platform (\<^verbatim>\<open>TypeError\<close>, \<^verbatim>\<open>SyntaxError\<close>, the
  \<^verbatim>\<open>AbortError\<close> of an aborted fetch) are instances of \<^verbatim>\<open>Error\<close> with their own
  name.
\<close>

datatype error_class =
    Error_class
  | PorkbunError_class
  | PorkbunAuthError_class
  | PorkbunRateLimitError_class

record js_error =
  e_class :: error_class
  e_name :: string
  e_message :: string
  e_status :: "string option"
  e_limits :: jsval

text \<open>A thrown value: an instance of \<^verbatim>\<open>Error\<close>, or anything else.\<close>

datatype thrown = ErrorValue js_error | OtherValue

definition new_Error :: "string \<Rightarrow> js_error" where
  "new_Error msg =
     \<lparr> e_class = Error_class, e_name = ''Error'', e_message = msg,
       e_status = None, e_limits = JUndefined \<rparr>"

definition new_PorkbunError :: "string \<Rightarrow> string option \<Rightarrow> js_error" where
  "new_PorkbunError msg st =
     (new_Error msg) \<lparr> e_class := PorkbunError_class, e_name := ''PorkbunError'',
                       e_status := st \<rparr>"

text \<open>\<^verbatim>\<open>constructor(message = 'Authentication failed')\<close>.\<close>

definition new_PorkbunAuthError :: "string option \<Rightarrow> js_error" where
  "new_PorkbunAuthError m =
     (new_PorkbunError (case m of None \<Rightarrow> ''Authentication failed'' | Some s \<Rightarrow> s)
        (Some ''AUTH_ERROR''))
     \<lparr> e_class := PorkbunAuthError_class, e_name := ''PorkbunAuthError'' \<rparr>"

text \<open>
  \<^verbatim>\<open>constructor(message = 'Rate limit exceeded', public limits?)\<close>: the default
  replaces an \<^verbatim>\<open>undefined\<close> message; \<^verbatim>\<open>Error\<close> stores the message as a string.
\<close>

definition new_PorkbunRateLimitError :: "jsval \<Rightarrow> jsval \<Rightarrow> js_error" where
  "new_PorkbunRateLimitError m lim =
     (new_PorkbunError
        (js_toString (if m = JUndefined then JStr ''Rate limit exceeded'' else m))
        (Some ''RATE_LIMIT''))
     \<lparr> e_class := PorkbunRateLimitError_class, e_name := ''PorkbunRateLimitError'',
       e_limits := lim \<rparr>"

section \<open>The transport\<close>

text \<open>
  \<^verbatim>\<open>fetch\<close> is the environment of the client. A request is what the client hands to
  it: the URL, the method, the headers, the object serialised into the body, and the
  delay of the timer that aborts the request through the \<^verbatim>\<open>AbortController\<close>
  signal (\<open>None\<close> when no signal is passed). The environment answers a request by
  rejecting with a thrown value or by resolving with a response; when the signal aborts
  a pending request \<^verbatim>\<open>fetch\<close> rejects with an error named \<^verbatim>\<open>AbortError\<close>. A
  response has its numeric status, its status text and what \<^verbatim>\<open>response.json()\<close>
  yields, a parsed value or a rejection.
\<close>

record request =
  req_url :: string
  req_method :: string
  req_headers :: "(string \<times> string) list"
  req_body :: props
  req_abort_after :: "int option"

datatype json_result = JsonRejects thrown | JsonValue jsval

record response =
  status :: nat
  statusText :: string
  json :: json_result

datatype fetch_result = Rejects thrown | Resolves response

text \<open>\<^verbatim>\<open>response.ok\<close>: the status is in the range 200 to 299.\<close>

definition ok :: "response \<Rightarrow> bool" where
  "ok r = (200 \<le> status r \<and> status r \<le> 299)"


text \<open>
  The \<^verbatim>\<open>TypeError\<close> of reading a property of \<^verbatim>\<open>null\<close> or \<^verbatim>\<open>undefined\<close> and of
  calling a value that is not a function. The message texts are those of one engine;
  nothing below depends on them.
\<close>

definition type_error :: "string \<Rightarrow> thrown" where
  "type_error msg = ErrorValue ((new_Error msg) \<lparr> e_name := ''TypeError'' \<rparr>)"

definition cannot_read_status :: thrown where
  "cannot_read_status = type_error ''Cannot read properties of null (reading status)''"

definition includes_not_a_function :: thrown where
  "includes_not_a_function = type_error ''result.message?.includes is not a function''"

section \<open>The request pipeline\<close>

definition getAuth :: "PorkbunClient \<Rightarrow> props" where
  "getAuth c = [(''apikey'', JStr (c_apiKey c)), (''secretapikey'', JStr (c_secretKey c))]"

text \<open>
  \<^verbatim>\<open>#convertApiResponse\<close>. \<^verbatim>\<open>null\<close> and \<^verbatim>\<open>undefined\<close> are returned as they are;
  an array is mapped element by element; an object is copied and each property is
  replaced: \<^verbatim>\<open>'yes'\<close> by \<^verbatim>\<open>true\<close>, \<^verbatim>\<open>'no'\<close> by \<^verbatim>\<open>false\<close>, an array or object by
  its conversion; any other value is returned as it is.
\<close>

fun convertApiResponse :: "jsval \<Rightarrow> jsval" where
  "convertApiResponse JNull = JNull"
| "convertApiResponse JUndefined = JUndefined"
| "convertApiResponse (JArr xs) = JArr (map convertApiResponse xs)"
| "convertApiResponse (JObj ps) =
     JObj (map (\<lambda>(k, v). (k,
        if v = JStr ''yes'' then JBool True
        else if v = JStr ''no'' then JBool False
        else if is_object v then convertApiResponse v
        else v)) ps)"
| "convertApiResponse v = v"

text \<open>
  The request that \<^verbatim>\<open>#makeRequest\<close> hands to \<^verbatim>\<open>fetch\<close>: the endpoint appended to
  the base URL, the body \<^verbatim>\<open>{...this.#getAuth(), ...data}\<close>, and the signal of a
  controller that a timer aborts after \<^verbatim>\<open>this.#timeout\<close> milliseconds.
\<close>

definition pipeline_request :: "PorkbunClient \<Rightarrow> string \<Rightarrow> props \<Rightarrow> request" where
  "pipeline_request c endpoint data =
     \<lparr> req_url = c_baseUrl c @ endpoint,
       req_method = ''POST'',
       req_headers = [(''Content-Type'', ''application/json'')],
       req_body = spread (getAuth c) data,
       req_abort_after = Some (c_timeout c) \<rparr>"

text \<open>
  \<^verbatim>\<open>m?.includes(sub)\<close>: \<^verbatim>\<open>undefined\<close> (falsy) on \<^verbatim>\<open>null\<close> and \<^verbatim>\<open>undefined\<close>, the
  substring test on a string, the element test on an array, and a \<^verbatim>\<open>TypeError\<close> on
  a value that has no \<^verbatim>\<open>includes\<close> function.
\<close>

fun optional_includes :: "jsval \<Rightarrow> string \<Rightarrow> thrown + bool" where
  "optional_includes JUndefined sub = Inr False"
| "optional_includes JNull sub = Inr False"
| "optional_includes (JStr s) sub = Inr (str_includes s sub)"
| "optional_includes (JArr xs) sub = Inr (JStr sub \<in> set xs)"
| "optional_includes _ sub = Inl includes_not_a_function"

text \<open>
  What the branch \<^verbatim>\<open>result.status === 'ERROR'\<close> throws, from \<^verbatim>\<open>result.message\<close>.
  \<^verbatim>\<open>PorkbunRateLimitError\<close> is constructed with the message alone.
\<close>

definition api_error :: "jsval \<Rightarrow> thrown" where
  "api_error m =
     (case optional_includes m ''rate limit'' of
        Inl e \<Rightarrow> e
      | Inr True \<Rightarrow> ErrorValue (new_PorkbunRateLimitError m JUndefined)
      | Inr False \<Rightarrow>
          (case optional_includes m ''limit'' of
             Inl e \<Rightarrow> e
           | Inr True \<Rightarrow> ErrorValue (new_PorkbunRateLimitError m JUndefined)
           | Inr False \<Rightarrow>
               ErrorValue (new_Error
                 (js_toString (if truthy m then m else JStr ''Unknown API error'')))))"

text \<open>The \<^verbatim>\<open>try\<close> block of \<^verbatim>\<open>#makeRequest\<close>: the value returned or the value thrown.\<close>

definition try_block ::
  "PorkbunClient \<Rightarrow> (request \<Rightarrow> fetch_result) \<Rightarrow> string \<Rightarrow> props \<Rightarrow> thrown + jsval" where
  "try_block c fetch endpoint data =
     (case fetch (pipeline_request c endpoint data) of
        Rejects e \<Rightarrow> Inl e
      | Resolves r \<Rightarrow>
          if \<not> ok r then
            (if status r = 403 then
               Inl (ErrorValue (new_PorkbunAuthError
                 (Some ''Authentication failed or additional authentication required'')))
             else
               Inl (ErrorValue (new_Error
                 (''HTTP '' @ show_nat (status r) @ '': '' @ statusText r))))
          else
            (case json r of
               JsonRejects e \<Rightarrow> Inl e
             | JsonValue result \<Rightarrow>
                 if result = JNull \<or> result = JUndefined then Inl cannot_read_status
                 else if get_member result ''status'' = JStr ''ERROR'' then
                   Inl (api_error (get_member result ''message''))
                 else Inr (convertApiResponse (delete_member result ''status''))))"

text \<open>The \<^verbatim>\<open>catch\<close> block of \<^verbatim>\<open>#makeRequest\<close>: the error it throws for a caught value.\<close>

definition catch_block :: "thrown \<Rightarrow> js_error" where
  "catch_block t =
     (case t of
        OtherValue \<Rightarrow> new_Error ''Unknown error occurred''
      | ErrorValue e \<Rightarrow>
          if e_name e = ''AbortError'' then new_Error ''Request timeout''
          else if e_class e = PorkbunAuthError_class \<or> e_class e = PorkbunRateLimitError_class
            then e
          else new_Error (''API request failed: '' @ e_message e))"

definition makeRequest ::
  "PorkbunClient \<Rightarrow> (request \<Rightarrow> fetch_result) \<Rightarrow> string \<Rightarrow> props \<Rightarrow> js_error + jsval" where
  "makeRequest c fetch endpoint data =
     (case try_block c fetch endpoint data of
        Inl t \<Rightarrow> Inl (catch_block t)
      | Inr v \<Rightarrow> Inr v)"

section \<open>The public methods\<close>

text \<open>
  An \<^verbatim>\<open>async\<close> method that awaits the pipeline and returns nothing resolves with
  \<^verbatim>\<open>undefined\<close>.
\<close>

definition discard :: "js_error + jsval \<Rightarrow> js_error + jsval" where
  "discard r = (case r of Inl e \<Rightarrow> Inl e | Inr v \<Rightarrow> Inr JUndefined)"

definition ping :: "PorkbunClient \<Rightarrow> (request \<Rightarrow> fetch_result) \<Rightarrow> js_error + jsval" where
  "ping c fetch = makeRequest c fetch ''/ping'' []"

text \<open>
  \<^verbatim>\<open>getPricing\<close> does not go through \<^verbatim>\<open>#makeRequest\<close>: it posts an empty object with
  no signal, and returns the converted body of any response whose status is in the
  range 200 to 299.
\<close>

definition getPricing :: "PorkbunClient \<Rightarrow> (request \<Rightarrow> fetch_result) \<Rightarrow> js_error + jsval" where
  "getPricing c fetch =
     (case
        (case fetch \<lparr> req_url = c_baseUrl c @ ''/pricing/get'',
                      req_method = ''POST'',
                      req_headers = [(''Content-Type'', ''application/json'')],
                      req_body = [],
                      req_abort_after = None \<rparr> of
           Rejects e \<Rightarrow> Inl e
         | Resolves r \<Rightarrow>
             if \<not> ok r then
               Inl (ErrorValue (new_Error
                 (''HTTP '' @ show_nat (status r) @ '': '' @ statusText r)))
             else
               (case json r of
                  JsonRejects e \<Rightarrow> Inl e
                | JsonValue result \<Rightarrow> Inr (convertApiResponse result))) of
        Inl t \<Rightarrow>
          Inl (new_Error (''Failed to get pricing: '' @
                 (case t of ErrorValue e \<Rightarrow> e_message e | OtherValue \<Rightarrow> ''Unknown error'')))
      | Inr v \<Rightarrow> Inr v)"

text \<open>The string literals of the type \<^verbatim>\<open>DNSRecordType\<close>.\<close>

datatype DNSRecordType =
    DNS_A | DNS_MX | DNS_CNAME | DNS_ALIAS | DNS_TXT | DNS_NS
  | DNS_AAAA | DNS_SRV | DNS_TLSA | DNS_CAA | DNS_HTTPS | DNS_SVCB

fun type_text :: "DNSRecordType \<Rightarrow> string" where
  "type_text DNS_A = ''A''"
| "type_text DNS_MX = ''MX''"
| "type_text DNS_CNAME = ''CNAME''"
| "type_text DNS_ALIAS = ''ALIAS''"
| "type_text DNS_TXT = ''TXT''"
| "type_text DNS_NS = ''NS''"
| "type_text DNS_AAAA = ''AAAA''"
| "type_text DNS_SRV = ''SRV''"
| "type_text DNS_TLSA = ''TLSA''"
| "type_text DNS_CAA = ''CAA''"
| "type_text DNS_HTTPS = ''HTTPS''"
| "type_text DNS_SVCB = ''SVCB''"

text \<open>A parameter with the default \<^verbatim>\<open>''\<close>: an omitted argument is the empty string.\<close>

definition default_empty :: "string option \<Rightarrow> string" where
  "default_empty x = (case x of None \<Rightarrow> [] | Some s \<Rightarrow> s)"

definition updateNameServers ::
  "PorkbunClient \<Rightarrow> (request \<Rightarrow> fetch_result) \<Rightarrow> string \<Rightarrow> props \<Rightarrow> js_error + jsval" where
  "updateNameServers c fetch domain options =
     discard (makeRequest c fetch (''/domain/updateNs/'' @ domain) options)"

definition getNameServers ::
  "PorkbunClient \<Rightarrow> (request \<Rightarrow> fetch_result) \<Rightarrow> string \<Rightarrow> js_error + jsval" where
  "getNameServers c fetch domain = makeRequest c fetch (''/domain/getNs/'' @ domain) []"

text \<open>
  \<^verbatim>\<open>listDomains(options = {})\<close> sends the options, with \<^verbatim>\<open>includeLabels\<close> replaced
  by \<^verbatim>\<open>'yes'\<close> or \<^verbatim>\<open>'no'\<close> when it is not \<^verbatim>\<open>undefined\<close>.
\<close>

definition listDomains ::
  "PorkbunClient \<Rightarrow> (request \<Rightarrow> fetch_result) \<Rightarrow> props option \<Rightarrow> js_error + jsval" where
  "listDomains c fetch opt =
     (let options = (case opt of None \<Rightarrow> [] | Some ps \<Rightarrow> ps);
          data = spread options
            (if get_prop options ''includeLabels'' \<noteq> JUndefined then
               [(''includeLabels'',
                 JStr (if truthy (get_prop options ''includeLabels'') then ''yes'' else ''no''))]
             else [])
      in makeRequest c fetch ''/domain/listAll'' data)"

definition addURLForward ::
  "PorkbunClient \<Rightarrow> (request \<Rightarrow> fetch_result) \<Rightarrow> string \<Rightarrow> props \<Rightarrow> js_error + jsval" where
  "addURLForward c fetch domain options =
     (let data = spread options
            [(''includePath'',
              JStr (if truthy (get_prop options ''includePath'') then ''yes'' else ''no'')),
             (''wildcard'',
              JStr (if truthy (get_prop options ''wildcard'') then ''yes'' else ''no''))]
      in discard (makeRequest c fetch (''/domain/addUrlForward/'' @ domain) data))"

definition getURLForwarding ::
  "PorkbunClient \<Rightarrow> (request \<Rightarrow> fetch_result) \<Rightarrow> string \<Rightarrow> js_error + jsval" where
  "getURLForwarding c fetch domain =
     makeRequest c fetch (''/domain/getUrlForwarding/'' @ domain) []"

definition deleteURLForward ::
  "PorkbunClient \<Rightarrow> (request \<Rightarrow> fetch_result) \<Rightarrow> string \<Rightarrow> string \<Rightarrow> js_error + jsval" where
  "deleteURLForward c fetch domain recordId =
     discard (makeRequest c fetch (''/domain/deleteUrlForward/'' @ domain @ ''/'' @ recordId) [])"

definition checkDomain ::
  "PorkbunClient \<Rightarrow> (request \<Rightarrow> fetch_result) \<Rightarrow> string \<Rightarrow> js_error + jsval" where
  "checkDomain c fetch domain = makeRequest c fetch (''/domain/checkDomain/'' @ domain) []"

definition createGlueRecord ::
  "PorkbunClient \<Rightarrow> (request \<Rightarrow> fetch_result) \<Rightarrow> string \<Rightarrow> string \<Rightarrow> props
     \<Rightarrow> js_error + jsval" where
  "createGlueRecord c fetch domain subdomain options =
     discard (makeRequest c fetch (''/domain/createGlue/'' @ domain @ ''/'' @ subdomain) options)"

definition updateGlueRecord ::
  "PorkbunClient \<Rightarrow> (request \<Rightarrow> fetch_result) \<Rightarrow> string \<Rightarrow> string \<Rightarrow> props
     \<Rightarrow> js_error + jsval" where
  "updateGlueRecord c fetch domain subdomain options =
     discard (makeRequest c fetch (''/domain/updateGlue/'' @ domain @ ''/'' @ subdomain) options)"

definition deleteGlueRecord ::
  "PorkbunClient \<Rightarrow> (request \<Rightarrow> fetch_result) \<Rightarrow> string \<Rightarrow> string \<Rightarrow> js_error + jsval" where
  "deleteGlueRecord c fetch domain subdomain =
     discard (makeRequest c fetch (''/domain/deleteGlue/'' @ domain @ ''/'' @ subdomain) [])"

definition getGlueRecords ::
  "PorkbunClient \<Rightarrow> (request \<Rightarrow> fetch_result) \<Rightarrow> string \<Rightarrow> js_error + jsval" where
  "getGlueRecords c fetch domain = makeRequest c fetch (''/domain/getGlue/'' @ domain) []"

definition createDNSRecord ::
  "PorkbunClient \<Rightarrow> (request \<Rightarrow> fetch_result) \<Rightarrow> string \<Rightarrow> props \<Rightarrow> js_error + jsval" where
  "createDNSRecord c fetch domain options =
     makeRequest c fetch (''/dns/create/'' @ domain) options"

definition editDNSRecord ::
  "PorkbunClient \<Rightarrow> (request \<Rightarrow> fetch_result) \<Rightarrow> string \<Rightarrow> string \<Rightarrow> props
     \<Rightarrow> js_error + jsval" where
  "editDNSRecord c fetch domain recordId options =
     discard (makeRequest c fetch (''/dns/edit/'' @ domain @ ''/'' @ recordId) options)"

definition editDNSRecordsByType ::
  "PorkbunClient \<Rightarrow> (request \<Rightarrow> fetch_result) \<Rightarrow> string \<Rightarrow> DNSRecordType \<Rightarrow> string option
     \<Rightarrow> props \<Rightarrow> js_error + jsval" where
  "editDNSRecordsByType c fetch domain type sub options =
     (let subdomain = default_empty sub in
      discard (makeRequest c fetch
        (if subdomain \<noteq> [] then
           ''/dns/editByNameType/'' @ domain @ ''/'' @ type_text type @ ''/'' @ subdomain
         else ''/dns/editByNameType/'' @ domain @ ''/'' @ type_text type)
        options))"

definition deleteDNSRecord ::
  "PorkbunClient \<Rightarrow> (request \<Rightarrow> fetch_result) \<Rightarrow> string \<Rightarrow> string \<Rightarrow> js_error + jsval" where
  "deleteDNSRecord c fetch domain recordId =
     discard (makeRequest c fetch (''/dns/delete/'' @ domain @ ''/'' @ recordId) [])"

definition deleteDNSRecordsByType ::
  "PorkbunClient \<Rightarrow> (request \<Rightarrow> fetch_result) \<Rightarrow> string \<Rightarrow> DNSRecordType \<Rightarrow> string option
     \<Rightarrow> js_error + jsval" where
  "deleteDNSRecordsByType c fetch domain type sub =
     (let subdomain = default_empty sub in
      discard (makeRequest c fetch
        (if subdomain \<noteq> [] then
           ''/dns/deleteByNameType/'' @ domain @ ''/'' @ type_text type @ ''/'' @ subdomain
         else ''/dns/deleteByNameType/'' @ domain @ ''/'' @ type_text type)
        []))"

text \<open>\<^verbatim>\<open>getDNSRecords(domain, recordId?)\<close>: an omitted or empty record id is falsy.\<close>

definition getDNSRecords ::
  "PorkbunClient \<Rightarrow> (request \<Rightarrow> fetch_result) \<Rightarrow> string \<Rightarrow> string option \<Rightarrow> js_error + jsval" where
  "getDNSRecords c fetch domain recordId =
     makeRequest c fetch
       (case recordId of
          None \<Rightarrow> ''/dns/retrieve/'' @ domain
        | Some r \<Rightarrow>
            if r \<noteq> [] then ''/dns/retrieve/'' @ domain @ ''/'' @ r
            else ''/dns/retrieve/'' @ domain)
       []"

definition getDNSRecordsByType ::
  "PorkbunClient \<Rightarrow> (request \<Rightarrow> fetch_result) \<Rightarrow> string \<Rightarrow> DNSRecordType \<Rightarrow> string option
     \<Rightarrow> js_error + jsval" where
  "getDNSRecordsByType c fetch domain type sub =
     (let subdomain = default_empty sub in
      makeRequest c fetch
        (if subdomain \<noteq> [] then
           ''/dns/retrieveByNameType/'' @ domain @ ''/'' @ type_text type @ ''/'' @ subdomain
         else ''/dns/retrieveByNameType/'' @ domain @ ''/'' @ type_text type)
        [])"

definition createDNSSECRecord ::
  "PorkbunClient \<Rightarrow> (request \<Rightarrow> fetch_result) \<Rightarrow> string \<Rightarrow> props \<Rightarrow> js_error + jsval" where
  "createDNSSECRecord c fetch domain options =
     discard (makeRequest c fetch (''/dns/createDnssecRecord/'' @ domain) options)"

definition getDNSSECRecords ::
  "PorkbunClient \<Rightarrow> (request \<Rightarrow> fetch_result) \<Rightarrow> string \<Rightarrow> js_error + jsval" where
  "getDNSSECRecords c fetch domain =
     makeRequest c fetch (''/dns/getDnssecRecords/'' @ domain) []"

definition deleteDNSSECRecord ::
  "PorkbunClient \<Rightarrow> (request \<Rightarrow> fetch_result) \<Rightarrow> string \<Rightarrow> string \<Rightarrow> js_error + jsval" where
  "deleteDNSSECRecord c fetch domain keyTag =
     discard (makeRequest c fetch (''/dns/deleteDnssecRecord/'' @ domain @ ''/'' @ keyTag) [])"

definition getSSLBundle ::
  "PorkbunClient \<Rightarrow> (request \<Rightarrow> fetch_result) \<Rightarrow> string \<Rightarrow> js_error + jsval" where
  "getSSLBundle c fetch domain = makeRequest c fetch (''/ssl/retrieve/'' @ domain) []"

text \<open>A call of one of the public methods of the client, with its arguments.\<close>

datatype operation =
    Ping
  | GetPricing
  | UpdateNameServers string props
  | GetNameServers string
  | ListDomains "props option"
  | AddURLForward string props
  | GetURLForwarding string
  | DeleteURLForward string string
  | CheckDomain string
  | CreateGlueRecord string string props
  | UpdateGlueRecord string string props
  | DeleteGlueRecord string string
  | GetGlueRecords string
  | CreateDNSRecord string props
  | EditDNSRecord string string props
  | EditDNSRecordsByType string DNSRecordType "string option" props
  | DeleteDNSRecord string string
  | DeleteDNSRecordsByType string DNSRecordType "string option"
  | GetDNSRecords string "string option"
  | GetDNSRecordsByType string DNSRecordType "string option"
  | CreateDNSSECRecord string props
  | GetDNSSECRecords string
  | DeleteDNSSECRecord string string
  | GetSSLBundle string

fun invoke ::
  "PorkbunClient \<Rightarrow> (request \<Rightarrow> fetch_result) \<Rightarrow> operation \<Rightarrow> js_error + jsval" where
  "invoke c fetch Ping = ping c fetch"
| "invoke c fetch GetPricing = getPricing c fetch"
| "invoke c fetch (UpdateNameServers d opts) = updateNameServers c fetch d opts"
| "invoke c fetch (GetNameServers d) = getNameServers c fetch d"
| "invoke c fetch (ListDomains opt) = listDomains c fetch opt"
| "invoke c fetch (AddURLForward d opts) = addURLForward c fetch d opts"
| "invoke c fetch (GetURLForwarding d) = getURLForwarding c fetch d"
| "invoke c fetch (DeleteURLForward d r) = deleteURLForward c fetch d r"
| "invoke c fetch (CheckDomain d) = checkDomain c fetch d"
| "invoke c fetch (CreateGlueRecord d s opts) = createGlueRecord c fetch d s opts"
| "invoke c fetch (UpdateGlueRecord d s opts) = updateGlueRecord c fetch d s opts"
| "invoke c fetch (DeleteGlueRecord d s) = deleteGlueRecord c fetch d s"
| "invoke c fetch (GetGlueRecords d) = getGlueRecords c fetch d"
| "invoke c fetch (CreateDNSRecord d opts) = createDNSRecord c fetch d opts"
| "invoke c fetch (EditDNSRecord d r opts) = editDNSRecord c fetch d r opts"
| "invoke c fetch (EditDNSRecordsByType d t s opts) = editDNSRecordsByType c fetch d t s opts"
| "invoke c fetch (DeleteDNSRecord d r) = deleteDNSRecord c fetch d r"
| "invoke c fetch (DeleteDNSRecordsByType d t s) = deleteDNSRecordsByType c fetch d t s"
| "invoke c fetch (GetDNSRecords d r) = getDNSRecords c fetch d r"
| "invoke c fetch (GetDNSRecordsByType d t s) = getDNSRecordsByType c fetch d t s"
| "invoke c fetch (CreateDNSSECRecord d opts) = createDNSSECRecord c fetch d opts"
| "invoke c fetch (GetDNSSECRecords d) = getDNSSECRecords c fetch d"
| "invoke c fetch (DeleteDNSSECRecord d k) = deleteDNSSECRecord c fetch d k"
| "invoke c fetch (GetSSLBundle d) = getSSLBundle c fetch d"

section \<open>Vocabulary of the properties\<close>

text \<open>
  A position inside a value: the property names and array indices that lead to it from
  the root. \<open>lookup_path v p\<close> is the value at position \<open>p\<close> of \<open>v\<close>, if there is one.
\<close>

datatype step = Key string | Index nat

fun lookup_path :: "jsval \<Rightarrow> step list \<Rightarrow> jsval option" where
  "lookup_path v [] = Some v"
| "lookup_path (JObj ps) (Key k # p) =
     (case map_of ps k of None \<Rightarrow> None | Some x \<Rightarrow> lookup_path x p)"
| "lookup_path (JArr xs) (Index i # p) =
     (if i < length xs then lookup_path (xs ! i) p else None)"
| "lookup_path _ _ = None"

text \<open>The position is the value of an object property: its last step is a name.\<close>

fun under_key :: "step list \<Rightarrow> bool" where
  "under_key [] = False"
| "under_key [Key k] = True"
| "under_key [Index i] = False"
| "under_key (s # t # p) = under_key (t # p)"

text \<open>The rewriting of one leaf: \<^verbatim>\<open>'yes'\<close> to \<^verbatim>\<open>true\<close>, \<^verbatim>\<open>'no'\<close> to \<^verbatim>\<open>false\<close>.\<close>

fun yes_no :: "jsval \<Rightarrow> jsval" where
  "yes_no (JStr s) =
     (if s = ''yes'' then JBool True else if s = ''no'' then JBool False else JStr s)"
| "yes_no v = v"

text \<open>
  What the loop body of \<^verbatim>\<open>#convertApiResponse\<close> stores for one property, and the
  value expected at a position of the converted response.
\<close>

definition convert_property :: "jsval \<Rightarrow> jsval" where
  "convert_property v =
     (if v = JStr ''yes'' then JBool True
      else if v = JStr ''no'' then JBool False
      else if is_object v then convertApiResponse v
      else v)"

definition expected_at :: "step list \<Rightarrow> jsval \<Rightarrow> jsval" where
  "expected_at p x =
     (if is_object x then convertApiResponse x
      else if under_key p then yes_no x else x)"

text \<open>
  The two ways the pipeline fails on an error envelope: an instance of
  \<^verbatim>\<open>PorkbunRateLimitError\<close>, or a plain \<^verbatim>\<open>Error\<close> whose message starts with
  \<^verbatim>\<open>API request failed: \<close>.
\<close>

definition is_rate_limit_error :: "js_error \<Rightarrow> bool" where
  "is_rate_limit_error e = (e_class e = PorkbunRateLimitError_class)"

definition is_api_error :: "js_error \<Rightarrow> bool" where
  "is_api_error e =
     (e_class e = Error_class \<and> take 20 (e_message e) = ''API request failed: '')"

text \<open>
  Two transports for examples: one resolves every request with the same response, as
  the mock of a test does; one rejects every request with the same thrown value.
\<close>

definition respond_with :: "response \<Rightarrow> request \<Rightarrow> fetch_result" where
  "respond_with r req = Resolves r"

definition reject_with :: "thrown \<Rightarrow> request \<Rightarrow> fetch_result" where
  "reject_with t req = Rejects t"






declare show_nat.simps [simp del]

section \<open>Substrings\<close>

lemma take_length_eq_iff: "take (length t) s = t \<longleftrightarrow> (\<exists>q. s = t @ q)"
  by (metis append_eq_conv_conj append_take_drop_id)

lemma str_includes_iff: "str_includes s t \<longleftrightarrow> (\<exists>p q. s = p @ t @ q)"
proof (induction s)
  case Nil
  then show ?case by auto
next
  case (Cons c cs)
  show ?case
  proof
    assume "str_includes (c # cs) t"
    then consider "take (length t) (c # cs) = t" | "str_includes cs t" by auto
    then show "\<exists>p q. c # cs = p @ t @ q"
    proof cases
      case 1
      then obtain q where "c # cs = t @ q" using take_length_eq_iff by blast
      then have "c # cs = [] @ t @ q" by simp
      then show ?thesis by blast
    next
      case 2
      then obtain p q where "cs = p @ t @ q" using Cons.IH by blast
      then have "c # cs = (c # p) @ t @ q" by simp
      then show ?thesis by blast
    qed
  next
    assume "\<exists>p q. c # cs = p @ t @ q"
    then obtain p q where pq: "c # cs = p @ t @ q" by blast
    show "str_includes (c # cs) t"
    proof (cases p)
      case Nil
      with pq have "take (length t) (c # cs) = t" using take_length_eq_iff by auto
      then show ?thesis by simp
    next
      case (Cons a p')
      with pq have "cs = p' @ t @ q" by simp
      then have "str_includes cs t" using Cons.IH by blast
      then show ?thesis by simp
    qed
  qed
qed

lemma rate_limit_subsumed: "str_includes s ''rate limit'' \<Longrightarrow> str_includes s ''limit''"
proof -
  assume "str_includes s ''rate limit''"
  then obtain p q where "s = p @ ''rate limit'' @ q" using str_includes_iff by blast
  then have "s = (p @ ''rate '') @ ''limit'' @ q" by simp
  then show ?thesis using str_includes_iff by blast
qed

section \<open>Object spread\<close>

lemma map_of_assign: "map_of (assign t src) = map_of t ++ map_of (rev src)"
  unfolding assign_def
proof (induction src arbitrary: t)
  case Nil
  then show ?case by simp
next
  case (Cons a src)
  obtain k v where a: "a = (k, v)" by (cases a)
  show ?case
    by (auto simp: a Cons.IH update_conv' map_add_def fun_eq_iff split: option.splits)
qed

lemma map_of_spread: "map_of (spread a b) = map_of (rev a) ++ map_of (rev b)"
  by (simp add: spread_def map_of_assign)

lemma keys_spread: "fst ` set (spread a b) = fst ` set a \<union> fst ` set b"
proof -
  have "dom (map_of (spread a b)) = dom (map_of (rev a)) \<union> dom (map_of (rev b))"
    by (simp add: map_of_spread Un_commute)
  then show ?thesis by (simp add: dom_map_of_conv_image_fst)
qed

lemma map_of_rev_distinct: "distinct (map fst xs) \<Longrightarrow> map_of (rev xs) = map_of xs"
  by (simp add: distinct_map distinct_rev map_of_inject_set)

lemma get_prop_spread_right:
  assumes "distinct (map fst b)" and "(k, v) \<in> set b"
  shows "get_prop (spread a b) k = v"
proof -
  have "map_of b k = Some v" using assms by simp
  then have "map_of (spread a b) k = Some v"
    using assms(1) by (simp add: map_of_spread map_of_rev_distinct)
  then show ?thesis by (simp add: get_prop_def)
qed

lemma get_prop_spread_left:
  assumes "k \<notin> fst ` set b"
  shows "get_prop (spread a b) k = get_prop (rev a) k"
proof -
  have "map_of (rev b) k = None" using assms by (simp add: map_of_eq_None_iff)
  then show ?thesis by (simp add: get_prop_def map_of_spread map_add_def)
qed

section \<open>The request body\<close>

text \<open>
  C1 (as amended). For every payload, the body object built by the pipeline has the
  properties \<^verbatim>\<open>apikey\<close> and \<^verbatim>\<open>secretapikey\<close>. Each holds the client's credential when
  the payload has no property of that name. The payload is spread after the
  credentials, so every property of the payload, one of these two names included,
  appears in the body with the payload's value.
\<close>

theorem C1_body_is_payload_over_credentials:
  "{''apikey'', ''secretapikey''} \<subseteq> fst ` set (req_body (pipeline_request c endpoint data)) \<and>
   (''apikey'' \<notin> fst ` set data \<longrightarrow>
      get_prop (req_body (pipeline_request c endpoint data)) ''apikey'' = JStr (c_apiKey c)) \<and>
   (''secretapikey'' \<notin> fst ` set data \<longrightarrow>
      get_prop (req_body (pipeline_request c endpoint data)) ''secretapikey''
        = JStr (c_secretKey c)) \<and>
   (\<forall>k v. distinct (map fst data) \<and> (k, v) \<in> set data \<longrightarrow>
      get_prop (req_body (pipeline_request c endpoint data)) k = v)"
proof -
  have body: "req_body (pipeline_request c endpoint data) = spread (getAuth c) data"
    by (simp add: pipeline_request_def)
  have "{''apikey'', ''secretapikey''} \<subseteq> fst ` set (spread (getAuth c) data)"
    by (simp add: keys_spread getAuth_def)
  moreover have "''apikey'' \<notin> fst ` set data \<longrightarrow>
      get_prop (spread (getAuth c) data) ''apikey'' = JStr (c_apiKey c)"
    by (simp add: get_prop_spread_left) (simp add: getAuth_def get_prop_def)
  moreover have "''secretapikey'' \<notin> fst ` set data \<longrightarrow>
      get_prop (spread (getAuth c) data) ''secretapikey'' = JStr (c_secretKey c)"
    by (simp add: get_prop_spread_left) (simp add: getAuth_def get_prop_def)
  moreover have "\<forall>k v. distinct (map fst data) \<and> (k, v) \<in> set data \<longrightarrow>
      get_prop (spread (getAuth c) data) k = v"
    using get_prop_spread_right by blast
  ultimately show ?thesis unfolding body by blast
qed

theorem C1_body_is_payload_over_credentials_witness:
  "get_prop (req_body (pipeline_request
      \<lparr> c_apiKey = ''pk1'', c_secretKey = ''sk1'',
        c_baseUrl = ''https://api.porkbun.com/api/json/v3'', c_timeout = 30000 \<rparr>
      ''/dns/create/example.com''
      [(''type'', JStr ''A''), (''content'', JStr ''192.0.2.1'')])) ''apikey'' = JStr ''pk1'' \<and>
   get_prop (req_body (pipeline_request
      \<lparr> c_apiKey = ''pk1'', c_secretKey = ''sk1'',
        c_baseUrl = ''https://api.porkbun.com/api/json/v3'', c_timeout = 30000 \<rparr>
      ''/dns/create/example.com''
      [(''type'', JStr ''A''), (''content'', JStr ''192.0.2.1'')])) ''content''
     = JStr ''192.0.2.1''"
  using C1_body_is_payload_over_credentials
    [of "\<lparr> c_apiKey = ''pk1'', c_secretKey = ''sk1'',
          c_baseUrl = ''https://api.porkbun.com/api/json/v3'', c_timeout = 30000 \<rparr>"
        "''/dns/create/example.com''"
        "[(''type'', JStr ''A''), (''content'', JStr ''192.0.2.1'')]"]
  by simp

text \<open>
  C1 (counterexample). A payload with a property \<^verbatim>\<open>apikey\<close> replaces the client's
  key \<^verbatim>\<open>pk1\<close> in the body: the credential does not win the collision.
\<close>

theorem C1_caller_overrides_credentials:
  "get_prop (req_body (pipeline_request
      \<lparr> c_apiKey = ''pk1'', c_secretKey = ''sk1'',
        c_baseUrl = ''https://api.porkbun.com/api/json/v3'', c_timeout = 30000 \<rparr>
      ''/ping''
      [(''apikey'', JStr ''other'')])) ''apikey'' = JStr ''other'' \<and>
   get_prop (req_body (pipeline_request
      \<lparr> c_apiKey = ''pk1'', c_secretKey = ''sk1'',
        c_baseUrl = ''https://api.porkbun.com/api/json/v3'', c_timeout = 30000 \<rparr>
      ''/ping''
      [(''apikey'', JStr ''other'')])) ''apikey'' \<noteq> JStr ''pk1''"
  by (simp add: pipeline_request_def spread_def assign_def getAuth_def get_prop_def)

section \<open>Normalisation of a response\<close>

lemma convert_leaf: "\<not> is_object v \<Longrightarrow> convertApiResponse v = v"
  by (cases v) auto

lemma leaf_lookup: "\<not> is_object v \<Longrightarrow> p \<noteq> [] \<Longrightarrow> lookup_path v p = None"
  by (cases v; cases p) auto

lemma yes_no_leaf: "\<not> is_object v \<Longrightarrow> \<not> is_object (yes_no v)"
  by (cases v) auto

lemma convert_obj:
  "convertApiResponse (JObj ps) = JObj (map (\<lambda>(k, v). (k, convert_property v)) ps)"
  by (simp add: convert_property_def)

lemma convert_property_cases:
  "convert_property x = (if is_object x then convertApiResponse x else yes_no x)"
  by (cases x) (auto simp: convert_property_def)

lemma map_of_converted:
  "map_of (map (\<lambda>(k, v). (k, convert_property v)) ps) k
     = map_option convert_property (map_of ps k)"
  by (induction ps) auto

lemma keys_converted: "map fst (map (\<lambda>(k, v). (k, convert_property v)) ps) = map fst ps"
  by (induction ps) auto

lemma expected_at_tail: "p \<noteq> [] \<Longrightarrow> expected_at (s # p) = expected_at p"
  by (cases p) (auto simp: expected_at_def fun_eq_iff)

lemma lookup_convert:
  "lookup_path (convertApiResponse v) p = map_option (expected_at p) (lookup_path v p)"
proof (induction p arbitrary: v)
  case Nil
  then show ?case by (simp add: expected_at_def convert_leaf)
next
  case (Cons s p)
  show ?case
  proof (cases v)
    case (JArr xs)
    show ?thesis
    proof (cases s)
      case (Key k)
      then show ?thesis using JArr by simp
    next
      case (Index i)
      show ?thesis
      proof (cases "i < length xs")
        case True
        have "lookup_path (convertApiResponse (xs ! i)) p
                = map_option (expected_at p) (lookup_path (xs ! i) p)"
          by (rule Cons.IH)
        moreover have "p = [] \<Longrightarrow> expected_at [Index i] (xs ! i) = convertApiResponse (xs ! i)"
          by (simp add: expected_at_def convert_leaf)
        ultimately show ?thesis using JArr Index True expected_at_tail[of p s]
          by (cases "p = []") auto
      next
        case False
        then show ?thesis using JArr Index by simp
      qed
    qed
  next
    case (JObj ps)
    show ?thesis
    proof (cases s)
      case (Index i)
      then show ?thesis using JObj by simp
    next
      case (Key k)
      show ?thesis
      proof (cases "map_of ps k")
        case None
        then show ?thesis using JObj Key
          by (simp add: map_of_converted convert_obj del: convertApiResponse.simps)
      next
        case (Some x)
        have conv: "lookup_path (convertApiResponse v) (s # p) = lookup_path (convert_property x) p"
          using JObj Key Some
          by (simp add: map_of_converted convert_obj del: convertApiResponse.simps)
        have orig: "lookup_path v (s # p) = lookup_path x p"
          using JObj Key Some by simp
        show ?thesis
        proof (cases "p = []")
          case True
          then show ?thesis using conv orig Key
            by (simp add: expected_at_def convert_property_cases)
        next
          case False
          show ?thesis
          proof (cases "is_object x")
            case True
            then show ?thesis using conv orig expected_at_tail[OF False, of s] Cons.IH[of x]
              by (simp add: convert_property_cases)
          next
            case False
            then show ?thesis using conv orig \<open>p \<noteq> []\<close>
              by (simp add: convert_property_cases leaf_lookup yes_no_leaf)
          qed
        qed
      qed
    qed
  qed (cases s; simp)+
qed

text \<open>
  C2 (as amended). The normalisation rewrites a string leaf equal to \<^verbatim>\<open>'yes'\<close> or
  \<^verbatim>\<open>'no'\<close> to \<^verbatim>\<open>true\<close> or \<^verbatim>\<open>false\<close> exactly when the leaf is the value of an
  object property, at any nesting depth through objects and arrays. Every other leaf,
  a \<^verbatim>\<open>'yes'\<close> or \<^verbatim>\<open>'no'\<close> string that is an element of an array or the whole
  response included, is returned as it is. The shape is kept: the converted value has
  a position exactly where the response has one, an array stays an array of the same
  length, an object stays an object with the same property names in the same order.
\<close>

theorem C2_property_values_normalised:
  "(lookup_path (convertApiResponse v) p = None \<longleftrightarrow> lookup_path v p = None) \<and>
   (\<forall>x. lookup_path v p = Some x \<and> \<not> is_object x \<longrightarrow>
      lookup_path (convertApiResponse v) p = Some (if under_key p then yes_no x else x)) \<and>
   (\<forall>xs. lookup_path v p = Some (JArr xs) \<longrightarrow>
      (\<exists>ys. lookup_path (convertApiResponse v) p = Some (JArr ys) \<and> length ys = length xs)) \<and>
   (\<forall>ps. lookup_path v p = Some (JObj ps) \<longrightarrow>
      (\<exists>qs. lookup_path (convertApiResponse v) p = Some (JObj qs) \<and> map fst qs = map fst ps))"
proof -
  have "lookup_path (convertApiResponse v) p = None \<longleftrightarrow> lookup_path v p = None"
    by (simp add: lookup_convert)
  moreover have "\<forall>x. lookup_path v p = Some x \<and> \<not> is_object x \<longrightarrow>
      lookup_path (convertApiResponse v) p = Some (if under_key p then yes_no x else x)"
    by (simp add: lookup_convert expected_at_def)
  moreover have "\<forall>xs. lookup_path v p = Some (JArr xs) \<longrightarrow>
      (\<exists>ys. lookup_path (convertApiResponse v) p = Some (JArr ys) \<and> length ys = length xs)"
    by (simp add: lookup_convert expected_at_def)
  moreover have "\<forall>ps. lookup_path v p = Some (JObj ps) \<longrightarrow>
      (\<exists>qs. lookup_path (convertApiResponse v) p = Some (JObj qs) \<and> map fst qs = map fst ps)"
    by (auto simp: lookup_convert expected_at_def convert_obj
        simp del: convertApiResponse.simps)
  ultimately show ?thesis by blast
qed

theorem C2_property_values_normalised_witness:
  "lookup_path (convertApiResponse
      (JObj [(''response'', JObj [(''avail'', JStr ''yes''), (''price'', JStr ''10.98'')]),
             (''ns'', JArr [JStr ''no''])]))
      [Key ''response'', Key ''avail''] = Some (JBool True) \<and>
   lookup_path (convertApiResponse
      (JObj [(''response'', JObj [(''avail'', JStr ''yes''), (''price'', JStr ''10.98'')]),
             (''ns'', JArr [JStr ''no''])]))
      [Key ''ns'', Index 0] = Some (JStr ''no'')"
  using
    C2_property_values_normalised
      [of "JObj [(''response'', JObj [(''avail'', JStr ''yes''), (''price'', JStr ''10.98'')]),
                 (''ns'', JArr [JStr ''no''])]"
          "[Key ''response'', Key ''avail'']"]
    C2_property_values_normalised
      [of "JObj [(''response'', JObj [(''avail'', JStr ''yes''), (''price'', JStr ''10.98'')]),
                 (''ns'', JArr [JStr ''no''])]"
          "[Key ''ns'', Index 0]"]
  by (simp del: convertApiResponse.simps)

text \<open>
  C2 (counterexample). The strings \<^verbatim>\<open>'yes'\<close> and \<^verbatim>\<open>'no'\<close> that are elements of the
  array under \<^verbatim>\<open>ns\<close> are not rewritten: the response is returned unchanged.
\<close>

theorem C2_array_elements_not_rewritten:
  "convertApiResponse (JObj [(''ns'', JArr [JStr ''yes'', JStr ''no''])])
     = JObj [(''ns'', JArr [JStr ''yes'', JStr ''no''])]"
  by simp

section \<open>Outcomes of the pipeline\<close>

lemma not_ok_403: "status r = 403 \<Longrightarrow> \<not> ok r"
  by (simp add: ok_def)

lemma try_block_not_ok:
  assumes "fetch (pipeline_request c endpoint data) = Resolves r" and "\<not> ok r"
  shows "try_block c fetch endpoint data =
     (if status r = 403 then
        Inl (ErrorValue (new_PorkbunAuthError
          (Some ''Authentication failed or additional authentication required'')))
      else Inl (ErrorValue (new_Error
          (''HTTP '' @ show_nat (status r) @ '': '' @ statusText r))))"
  using assms by (simp add: try_block_def)

lemma try_block_error_envelope:
  assumes "fetch (pipeline_request c endpoint data) = Resolves r" and "ok r"
    and "json r = JsonValue body" and "get_member body ''status'' = JStr ''ERROR''"
  shows "try_block c fetch endpoint data = Inl (api_error (get_member body ''message''))"
proof -
  have "body \<noteq> JNull" and "body \<noteq> JUndefined" using assms(4) by auto
  then show ?thesis using assms by (simp add: try_block_def)
qed

lemma catch_plain_error:
  "catch_block (ErrorValue (new_Error msg)) = new_Error (''API request failed: '' @ msg)"
  by (simp add: catch_block_def new_Error_def)

lemma catch_type_error:
  "catch_block (type_error msg) = new_Error (''API request failed: '' @ msg)"
  by (simp add: catch_block_def type_error_def new_Error_def)

lemma catch_rate_limit_error:
  "catch_block (ErrorValue (new_PorkbunRateLimitError m lim)) = new_PorkbunRateLimitError m lim"
  by (simp add: catch_block_def new_PorkbunRateLimitError_def new_PorkbunError_def new_Error_def)

lemma catch_auth_error:
  "catch_block (ErrorValue (new_PorkbunAuthError m)) = new_PorkbunAuthError m"
  by (simp add: catch_block_def new_PorkbunAuthError_def new_PorkbunError_def new_Error_def)

lemma api_error_limit:
  "str_includes m ''limit'' \<Longrightarrow>
     api_error (JStr m) = ErrorValue (new_PorkbunRateLimitError (JStr m) JUndefined)"
  by (cases "str_includes m ''rate limit''") (simp_all add: api_error_def)

lemma api_error_other:
  "\<not> str_includes m ''limit'' \<Longrightarrow>
     api_error (JStr m) = ErrorValue (new_Error (if m = [] then ''Unknown API error'' else m))"
proof -
  assume no: "\<not> str_includes m ''limit''"
  then have "\<not> str_includes m ''rate limit''" using rate_limit_subsumed by blast
  with no show ?thesis by (simp add: api_error_def)
qed

lemma api_error_absent: "api_error JUndefined = ErrorValue (new_Error ''Unknown API error'')"
  by (simp add: api_error_def)

lemma api_error_null: "api_error JNull = ErrorValue (new_Error ''Unknown API error'')"
  by (simp add: api_error_def)

lemma invoke_pipeline:
  "op \<noteq> GetPricing \<Longrightarrow>
     \<exists>endpoint data. invoke c fetch op = makeRequest c fetch endpoint data \<or>
                     invoke c fetch op = discard (makeRequest c fetch endpoint data)"
  by (cases op)
     (auto simp: ping_def updateNameServers_def getNameServers_def listDomains_def
        addURLForward_def getURLForwarding_def deleteURLForward_def checkDomain_def
        createGlueRecord_def updateGlueRecord_def deleteGlueRecord_def getGlueRecords_def
        createDNSRecord_def editDNSRecord_def editDNSRecordsByType_def deleteDNSRecord_def
        deleteDNSRecordsByType_def getDNSRecords_def getDNSRecordsByType_def
        createDNSSECRecord_def getDNSSECRecords_def deleteDNSSECRecord_def getSSLBundle_def
        Let_def)

lemma api_error_caught:
  "is_rate_limit_error (catch_block (api_error m)) \<or> is_api_error (catch_block (api_error m))"
proof (cases "\<exists>msg. api_error m = type_error msg")
  case True
  then show ?thesis
    by (auto simp: catch_type_error is_api_error_def new_Error_def)
next
  case False
  then consider
      (limited) x where "api_error m = ErrorValue (new_PorkbunRateLimitError m x)"
    | (plain) msg where "api_error m = ErrorValue (new_Error msg)"
    by (cases m)
       (auto simp: api_error_def includes_not_a_function_def split: sum.splits bool.splits)
  then show ?thesis
  proof cases
    case limited
    then have "catch_block (api_error m) = new_PorkbunRateLimitError m x"
      by (simp add: catch_rate_limit_error)
    then show ?thesis
      by (simp add: is_rate_limit_error_def new_PorkbunRateLimitError_def
          new_PorkbunError_def new_Error_def)
  next
    case plain
    then have "catch_block (api_error m) = new_Error (''API request failed: '' @ msg)"
      by (simp add: catch_plain_error)
    then show ?thesis by (simp add: is_api_error_def new_Error_def)
  qed
qed

lemma makeRequest_error_envelope:
  assumes "fetch (pipeline_request c endpoint data) = Resolves r" and "ok r"
    and "json r = JsonValue body" and "get_member body ''status'' = JStr ''ERROR''"
  shows "\<exists>e. makeRequest c fetch endpoint data = Inl e \<and>
              (is_rate_limit_error e \<or> is_api_error e)"
  using try_block_error_envelope[of fetch c endpoint data r body] assms
    api_error_caught[of "get_member body ''message''"]
  by (simp add: makeRequest_def)

lemma status_deleted:
  "get_member (convertApiResponse (delete_member result ''status'')) ''status'' = JUndefined"
proof (cases result)
  case (JObj ps)
  have "map_of (AList.delete ''status'' ps) ''status'' = None"
    by (simp add: delete_conv')
  then show ?thesis using JObj
    by (simp add: convert_obj map_of_converted get_prop_def del: convertApiResponse.simps)
qed simp_all

lemma makeRequest_result:
  assumes "makeRequest c fetch endpoint data = Inr v"
  shows "get_member v ''status'' = JUndefined"
proof -
  have "try_block c fetch endpoint data = Inr v"
    using assms by (simp add: makeRequest_def split: sum.splits)
  then obtain result where "v = convertApiResponse (delete_member result ''status'')"
    by (auto simp: try_block_def split: fetch_result.splits json_result.splits if_splits)
  then show ?thesis by (simp add: status_deleted)
qed

lemma discard_result: "discard x = Inr v \<Longrightarrow> v = JUndefined"
  by (auto simp: discard_def split: sum.splits)

lemma discard_error: "discard (Inl e) = Inl e"
  by (simp add: discard_def)

lemma routed_error:
  assumes "op \<noteq> GetPricing" and "\<And>endpoint data. makeRequest c fetch endpoint data = Inl e"
  shows "invoke c fetch op = Inl e"
proof -
  obtain endpoint data where
    "invoke c fetch op = makeRequest c fetch endpoint data \<or>
     invoke c fetch op = discard (makeRequest c fetch endpoint data)"
    using invoke_pipeline[OF assms(1)] by blast
  then show ?thesis using assms(2)[of endpoint data] by (auto simp: discard_error)
qed

lemma show_nat_403: "show_nat 403 = ''403''"
  by (simp add: show_nat.simps)

lemma show_nat_500: "show_nat 500 = ''500''"
  by (simp add: show_nat.simps)

section \<open>Routing of the public methods\<close>

text \<open>
  C4 (as amended). Every public operation other than \<^verbatim>\<open>getPricing\<close> is one call of
  the pipeline, whose result it returns or discards. For each of them, a response with
  a status in the range 200 to 299 whose envelope has \<^verbatim>\<open>status\<close> equal to
  \<^verbatim>\<open>'ERROR'\<close> makes the call fail with a \<^verbatim>\<open>PorkbunRateLimitError\<close> or with a plain
  \<^verbatim>\<open>Error\<close> whose message starts with \<^verbatim>\<open>API request failed: \<close>, and a result that
  the call returns has no \<^verbatim>\<open>status\<close> property.
\<close>

theorem C4_operations_through_pipeline:
  assumes "op \<noteq> GetPricing"
  shows
    "(\<exists>endpoint data. invoke c fetch op = makeRequest c fetch endpoint data \<or>
                      invoke c fetch op = discard (makeRequest c fetch endpoint data)) \<and>
     ((\<forall>req. fetch req = Resolves r) \<and> ok r \<and> json r = JsonValue body \<and>
        get_member body ''status'' = JStr ''ERROR'' \<longrightarrow>
        (\<exists>e. invoke c fetch op = Inl e \<and> (is_rate_limit_error e \<or> is_api_error e))) \<and>
     (\<forall>v. invoke c fetch op = Inr v \<longrightarrow> get_member v ''status'' = JUndefined)"
proof -
  obtain endpoint data where route:
    "invoke c fetch op = makeRequest c fetch endpoint data \<or>
     invoke c fetch op = discard (makeRequest c fetch endpoint data)"
    using invoke_pipeline[OF assms] by blast
  have failure: "\<exists>e. invoke c fetch op = Inl e \<and> (is_rate_limit_error e \<or> is_api_error e)"
    if all: "\<forall>req. fetch req = Resolves r" and env: "ok r" "json r = JsonValue body"
      "get_member body ''status'' = JStr ''ERROR''"
  proof -
    have "fetch (pipeline_request c endpoint data) = Resolves r" using all by simp
    then obtain e where "makeRequest c fetch endpoint data = Inl e"
      and "is_rate_limit_error e \<or> is_api_error e"
      using makeRequest_error_envelope[of fetch c endpoint data r body] env by blast
    then show ?thesis using route by (auto simp: discard_error)
  qed
  have success: "get_member v ''status'' = JUndefined" if "invoke c fetch op = Inr v" for v
  proof -
    from route that consider
        "makeRequest c fetch endpoint data = Inr v"
      | "discard (makeRequest c fetch endpoint data) = Inr v"
      by auto
    then show ?thesis
    proof cases
      case 1
      then show ?thesis by (rule makeRequest_result)
    next
      case 2
      then have "v = JUndefined" by (rule discard_result)
      then show ?thesis by simp
    qed
  qed
  from route failure success show ?thesis by blast
qed

theorem C4_operations_through_pipeline_witness:
  "\<exists>e. invoke
     \<lparr> c_apiKey = ''pk1'', c_secretKey = ''sk1'',
       c_baseUrl = ''https://api.porkbun.com/api/json/v3'', c_timeout = 30000 \<rparr>
     (respond_with
        \<lparr> status = 200, statusText = ''OK'',
          json = JsonValue (JObj [(''status'', JStr ''ERROR''),
                                  (''message'', JStr ''Invalid domain.'')]) \<rparr>)
     (GetNameServers ''example.com'') = Inl e \<and> (is_rate_limit_error e \<or> is_api_error e)"
  using C4_operations_through_pipeline
    [of "GetNameServers ''example.com''"
        "\<lparr> c_apiKey = ''pk1'', c_secretKey = ''sk1'',
           c_baseUrl = ''https://api.porkbun.com/api/json/v3'', c_timeout = 30000 \<rparr>"
        "respond_with
           \<lparr> status = 200, statusText = ''OK'',
             json = JsonValue (JObj [(''status'', JStr ''ERROR''),
                                     (''message'', JStr ''Invalid domain.'')]) \<rparr>"
        "\<lparr> status = 200, statusText = ''OK'',
           json = JsonValue (JObj [(''status'', JStr ''ERROR''),
                                   (''message'', JStr ''Invalid domain.'')]) \<rparr>"
        "JObj [(''status'', JStr ''ERROR''), (''message'', JStr ''Invalid domain.'')]"]
  by (simp add: respond_with_def ok_def get_prop_def)

text \<open>
  C4 (counterexample). \<^verbatim>\<open>getPricing\<close> returns an envelope whose \<^verbatim>\<open>status\<close> is
  \<^verbatim>\<open>'ERROR'\<close> as its result, with the \<^verbatim>\<open>status\<close> property still in it.
\<close>

theorem C4_getPricing_returns_error_envelope:
  "invoke
     \<lparr> c_apiKey = ''pk1'', c_secretKey = ''sk1'',
       c_baseUrl = ''https://api.porkbun.com/api/json/v3'', c_timeout = 30000 \<rparr>
     (respond_with
        \<lparr> status = 200, statusText = ''OK'',
          json = JsonValue (JObj [(''status'', JStr ''ERROR''),
                                  (''message'', JStr ''Invalid request.'')]) \<rparr>)
     GetPricing =
   Inr (JObj [(''status'', JStr ''ERROR''), (''message'', JStr ''Invalid request.'')])"
  by (simp add: getPricing_def respond_with_def ok_def)

section \<open>Transport status 403\<close>

lemma makeRequest_forbidden:
  assumes "fetch (pipeline_request c endpoint data) = Resolves r" and "status r = 403"
  shows "makeRequest c fetch endpoint data =
     Inl \<lparr> e_class = PorkbunAuthError_class, e_name = ''PorkbunAuthError'',
           e_message = ''Authentication failed or additional authentication required'',
           e_status = Some ''AUTH_ERROR'', e_limits = JUndefined \<rparr>"
proof -
  have "try_block c fetch endpoint data =
      Inl (ErrorValue (new_PorkbunAuthError
        (Some ''Authentication failed or additional authentication required'')))"
    using try_block_not_ok[of fetch c endpoint data r] not_ok_403[of r] assms by simp
  then show ?thesis
    by (simp add: makeRequest_def catch_auth_error)
       (simp add: new_PorkbunAuthError_def new_PorkbunError_def new_Error_def)
qed

text \<open>
  C5 (as amended). For every call of a public operation other than \<^verbatim>\<open>getPricing\<close>,
  when the transport answers with status 403 the call fails with a
  \<^verbatim>\<open>PorkbunAuthError\<close> whose message is
  \<^verbatim>\<open>Authentication failed or additional authentication required\<close>, whatever the
  status text and the body of the response are; the error is neither a
  \<^verbatim>\<open>PorkbunRateLimitError\<close> nor a plain \<^verbatim>\<open>Error\<close>.
\<close>

theorem C5_forbidden_is_auth_error:
  assumes "op \<noteq> GetPricing" and "\<forall>req. fetch req = Resolves r" and "status r = 403"
  shows "invoke c fetch op =
     Inl \<lparr> e_class = PorkbunAuthError_class, e_name = ''PorkbunAuthError'',
           e_message = ''Authentication failed or additional authentication required'',
           e_status = Some ''AUTH_ERROR'', e_limits = JUndefined \<rparr>"
proof (rule routed_error[OF assms(1)])
  fix endpoint data
  have "fetch (pipeline_request c endpoint data) = Resolves r" using assms(2) by simp
  then show "makeRequest c fetch endpoint data =
     Inl \<lparr> e_class = PorkbunAuthError_class, e_name = ''PorkbunAuthError'',
           e_message = ''Authentication failed or additional authentication required'',
           e_status = Some ''AUTH_ERROR'', e_limits = JUndefined \<rparr>"
    using assms(3) by (rule makeRequest_forbidden)
qed

theorem C5_forbidden_is_auth_error_witness:
  "invoke
     \<lparr> c_apiKey = ''pk1'', c_secretKey = ''sk1'',
       c_baseUrl = ''https://api.porkbun.com/api/json/v3'', c_timeout = 30000 \<rparr>
     (respond_with
        \<lparr> status = 403, statusText = ''Forbidden'',
          json = JsonValue (JObj [(''status'', JStr ''ERROR''),
                                  (''message'', JStr ''rate limit exceeded'')]) \<rparr>)
     (CheckDomain ''example.com'') =
   Inl \<lparr> e_class = PorkbunAuthError_class, e_name = ''PorkbunAuthError'',
         e_message = ''Authentication failed or additional authentication required'',
         e_status = Some ''AUTH_ERROR'', e_limits = JUndefined \<rparr>"
  using C5_forbidden_is_auth_error
    [of "CheckDomain ''example.com''"
        "respond_with
           \<lparr> status = 403, statusText = ''Forbidden'',
             json = JsonValue (JObj [(''status'', JStr ''ERROR''),
                                     (''message'', JStr ''rate limit exceeded'')]) \<rparr>"
        "\<lparr> status = 403, statusText = ''Forbidden'',
           json = JsonValue (JObj [(''status'', JStr ''ERROR''),
                                   (''message'', JStr ''rate limit exceeded'')]) \<rparr>"
        "\<lparr> c_apiKey = ''pk1'', c_secretKey = ''sk1'',
       c_baseUrl = ''https://api.porkbun.com/api/json/v3'', c_timeout = 30000 \<rparr>"]
  by (simp add: respond_with_def del: invoke.simps)

text \<open>
  C5 (counterexample). \<^verbatim>\<open>getPricing\<close> answered with status 403 fails with a plain
  \<^verbatim>\<open>Error\<close>, not with a \<^verbatim>\<open>PorkbunAuthError\<close>.
\<close>

theorem C5_getPricing_forbidden_is_plain_error:
  "invoke
     \<lparr> c_apiKey = ''pk1'', c_secretKey = ''sk1'',
       c_baseUrl = ''https://api.porkbun.com/api/json/v3'', c_timeout = 30000 \<rparr>
     (respond_with
        \<lparr> status = 403, statusText = ''Forbidden'', json = JsonValue JNull \<rparr>)
     GetPricing =
   Inl \<lparr> e_class = Error_class, e_name = ''Error'',
         e_message = ''Failed to get pricing: HTTP 403: Forbidden'',
         e_status = None, e_limits = JUndefined \<rparr>"
  by (simp add: getPricing_def respond_with_def ok_def show_nat_403 new_Error_def)

section \<open>Error envelopes\<close>

lemma makeRequest_envelope_classification:
  assumes "fetch (pipeline_request c endpoint data) = Resolves r" and "ok r"
    and "json r = JsonValue body" and "get_member body ''status'' = JStr ''ERROR''"
  shows
    "(\<forall>m. get_member body ''message'' = JStr m \<and> str_includes m ''limit'' \<longrightarrow>
        makeRequest c fetch endpoint data =
          Inl \<lparr> e_class = PorkbunRateLimitError_class, e_name = ''PorkbunRateLimitError'',
                e_message = m, e_status = Some ''RATE_LIMIT'', e_limits = JUndefined \<rparr>) \<and>
     (\<forall>m. get_member body ''message'' = JStr m \<and> \<not> str_includes m ''limit'' \<and> m \<noteq> [] \<longrightarrow>
        makeRequest c fetch endpoint data =
          Inl \<lparr> e_class = Error_class, e_name = ''Error'',
                e_message = ''API request failed: '' @ m,
                e_status = None, e_limits = JUndefined \<rparr>) \<and>
     (get_member body ''message'' = JUndefined \<or> get_member body ''message'' = JNull \<or>
      get_member body ''message'' = JStr [] \<longrightarrow>
        makeRequest c fetch endpoint data =
          Inl \<lparr> e_class = Error_class, e_name = ''Error'',
                e_message = ''API request failed: Unknown API error'',
                e_status = None, e_limits = JUndefined \<rparr>) \<and>
     (\<forall>m. str_includes m ''rate limit'' \<longrightarrow> str_includes m ''limit'')"
proof -
  have mr: "makeRequest c fetch endpoint data =
      Inl (catch_block (api_error (get_member body ''message'')))"
    using try_block_error_envelope[of fetch c endpoint data r body] assms
    by (simp add: makeRequest_def)
  have a: "\<forall>m. get_member body ''message'' = JStr m \<and> str_includes m ''limit'' \<longrightarrow>
        makeRequest c fetch endpoint data =
          Inl \<lparr> e_class = PorkbunRateLimitError_class, e_name = ''PorkbunRateLimitError'',
                e_message = m, e_status = Some ''RATE_LIMIT'', e_limits = JUndefined \<rparr>"
    by (auto simp: mr api_error_limit catch_rate_limit_error)
       (simp add: new_PorkbunRateLimitError_def new_PorkbunError_def new_Error_def)
  have b: "\<forall>m. get_member body ''message'' = JStr m \<and> \<not> str_includes m ''limit'' \<and> m \<noteq> [] \<longrightarrow>
        makeRequest c fetch endpoint data =
          Inl \<lparr> e_class = Error_class, e_name = ''Error'',
                e_message = ''API request failed: '' @ m,
                e_status = None, e_limits = JUndefined \<rparr>"
    by (auto simp: mr api_error_other catch_plain_error) (simp add: new_Error_def)
  have "\<not> str_includes [] ''limit''" by simp
  then have c: "get_member body ''message'' = JUndefined \<or> get_member body ''message'' = JNull \<or>
      get_member body ''message'' = JStr [] \<longrightarrow>
        makeRequest c fetch endpoint data =
          Inl \<lparr> e_class = Error_class, e_name = ''Error'',
                e_message = ''API request failed: Unknown API error'',
                e_status = None, e_limits = JUndefined \<rparr>"
    by (auto simp: mr api_error_other api_error_absent api_error_null catch_plain_error)
       (simp_all add: new_Error_def)
  have d: "\<forall>m. str_includes m ''rate limit'' \<longrightarrow> str_includes m ''limit''"
    using rate_limit_subsumed by blast
  from a b c d show ?thesis by blast
qed

text \<open>
  C6 (as amended). For every call of a public operation other than \<^verbatim>\<open>getPricing\<close>,
  when the transport answers with a status in the range 200 to 299 and a body whose
  \<^verbatim>\<open>status\<close> is \<^verbatim>\<open>'ERROR'\<close>: a message that contains \<^verbatim>\<open>limit\<close> makes the call
  fail with a \<^verbatim>\<open>PorkbunRateLimitError\<close> carrying the message, not with a plain
  \<^verbatim>\<open>Error\<close>; a non-empty message without \<^verbatim>\<open>limit\<close> makes it fail with the plain
  \<^verbatim>\<open>Error\<close> \<^verbatim>\<open>API request failed: \<close> followed by the message; an absent, null
  or empty message gives \<^verbatim>\<open>API request failed: Unknown API error\<close>. A message that
  contains \<^verbatim>\<open>rate limit\<close> contains \<^verbatim>\<open>limit\<close>.
\<close>

theorem C6_error_envelope_classification:
  assumes "op \<noteq> GetPricing" and "\<forall>req. fetch req = Resolves r" and "ok r"
    and "json r = JsonValue body" and "get_member body ''status'' = JStr ''ERROR''"
  shows
    "(\<forall>m. get_member body ''message'' = JStr m \<and> str_includes m ''limit'' \<longrightarrow>
        invoke c fetch op =
          Inl \<lparr> e_class = PorkbunRateLimitError_class, e_name = ''PorkbunRateLimitError'',
                e_message = m, e_status = Some ''RATE_LIMIT'', e_limits = JUndefined \<rparr>) \<and>
     (\<forall>m. get_member body ''message'' = JStr m \<and> \<not> str_includes m ''limit'' \<and> m \<noteq> [] \<longrightarrow>
        invoke c fetch op =
          Inl \<lparr> e_class = Error_class, e_name = ''Error'',
                e_message = ''API request failed: '' @ m,
                e_status = None, e_limits = JUndefined \<rparr>) \<and>
     (get_member body ''message'' = JUndefined \<or> get_member body ''message'' = JNull \<or>
      get_member body ''message'' = JStr [] \<longrightarrow>
        invoke c fetch op =
          Inl \<lparr> e_class = Error_class, e_name = ''Error'',
                e_message = ''API request failed: Unknown API error'',
                e_status = None, e_limits = JUndefined \<rparr>) \<and>
     (\<forall>m. str_includes m ''rate limit'' \<longrightarrow> str_includes m ''limit'')"
proof -
  have base:
    "(\<forall>m. get_member body ''message'' = JStr m \<and> str_includes m ''limit'' \<longrightarrow>
        makeRequest c fetch endpoint data =
          Inl \<lparr> e_class = PorkbunRateLimitError_class, e_name = ''PorkbunRateLimitError'',
                e_message = m, e_status = Some ''RATE_LIMIT'', e_limits = JUndefined \<rparr>) \<and>
     (\<forall>m. get_member body ''message'' = JStr m \<and> \<not> str_includes m ''limit'' \<and> m \<noteq> [] \<longrightarrow>
        makeRequest c fetch endpoint data =
          Inl \<lparr> e_class = Error_class, e_name = ''Error'',
                e_message = ''API request failed: '' @ m,
                e_status = None, e_limits = JUndefined \<rparr>) \<and>
     (get_member body ''message'' = JUndefined \<or> get_member body ''message'' = JNull \<or>
      get_member body ''message'' = JStr [] \<longrightarrow>
        makeRequest c fetch endpoint data =
          Inl \<lparr> e_class = Error_class, e_name = ''Error'',
                e_message = ''API request failed: Unknown API error'',
                e_status = None, e_limits = JUndefined \<rparr>) \<and>
     (\<forall>m. str_includes m ''rate limit'' \<longrightarrow> str_includes m ''limit'')"
    for endpoint data
  proof -
    have "fetch (pipeline_request c endpoint data) = Resolves r" using assms(2) by simp
    then show ?thesis
      using makeRequest_envelope_classification[of fetch c endpoint data r body] assms(3-5)
      by blast
  qed
  have limited: "invoke c fetch op =
          Inl \<lparr> e_class = PorkbunRateLimitError_class, e_name = ''PorkbunRateLimitError'',
                e_message = m, e_status = Some ''RATE_LIMIT'', e_limits = JUndefined \<rparr>"
    if "get_member body ''message'' = JStr m" and "str_includes m ''limit''" for m
    using that base by (intro routed_error[OF assms(1)]) blast
  have plain: "invoke c fetch op =
          Inl \<lparr> e_class = Error_class, e_name = ''Error'',
                e_message = ''API request failed: '' @ m,
                e_status = None, e_limits = JUndefined \<rparr>"
    if "get_member body ''message'' = JStr m" and "\<not> str_includes m ''limit''" and "m \<noteq> []"
    for m
    using that base by (intro routed_error[OF assms(1)]) blast
  have unknown: "invoke c fetch op =
          Inl \<lparr> e_class = Error_class, e_name = ''Error'',
                e_message = ''API request failed: Unknown API error'',
                e_status = None, e_limits = JUndefined \<rparr>"
    if "get_member body ''message'' = JUndefined \<or> get_member body ''message'' = JNull \<or>
        get_member body ''message'' = JStr []"
    using that base by (intro routed_error[OF assms(1)]) blast
  have subsumed: "\<forall>m. str_includes m ''rate limit'' \<longrightarrow> str_includes m ''limit''"
    using rate_limit_subsumed by blast
  from limited plain unknown subsumed show ?thesis by blast
qed

theorem C6_error_envelope_classification_witness:
  "invoke
     \<lparr> c_apiKey = ''pk1'', c_secretKey = ''sk1'',
       c_baseUrl = ''https://api.porkbun.com/api/json/v3'', c_timeout = 30000 \<rparr>
     (respond_with
        \<lparr> status = 200, statusText = ''OK'',
          json = JsonValue (JObj [(''status'', JStr ''ERROR''),
                                  (''message'', JStr ''limit reached'')]) \<rparr>)
     (GetNameServers ''example.com'') =
   Inl \<lparr> e_class = PorkbunRateLimitError_class, e_name = ''PorkbunRateLimitError'',
         e_message = ''limit reached'', e_status = Some ''RATE_LIMIT'',
         e_limits = JUndefined \<rparr>"
  using C6_error_envelope_classification
    [of "GetNameServers ''example.com''"
        "respond_with
           \<lparr> status = 200, statusText = ''OK'',
             json = JsonValue (JObj [(''status'', JStr ''ERROR''),
                                     (''message'', JStr ''limit reached'')]) \<rparr>"
        "\<lparr> status = 200, statusText = ''OK'',
           json = JsonValue (JObj [(''status'', JStr ''ERROR''),
                                   (''message'', JStr ''limit reached'')]) \<rparr>"
        "JObj [(''status'', JStr ''ERROR''), (''message'', JStr ''limit reached'')]"
        "\<lparr> c_apiKey = ''pk1'', c_secretKey = ''sk1'',
       c_baseUrl = ''https://api.porkbun.com/api/json/v3'', c_timeout = 30000 \<rparr>"]
  by (simp add: respond_with_def ok_def get_prop_def del: invoke.simps)

text \<open>
  C6 (counterexample). \<^verbatim>\<open>getPricing\<close> answered with status 200 and an error
  envelope whose message contains \<^verbatim>\<open>limit\<close> does not fail: it returns the envelope.
\<close>

theorem C6_getPricing_returns_limit_envelope:
  "invoke
     \<lparr> c_apiKey = ''pk1'', c_secretKey = ''sk1'',
       c_baseUrl = ''https://api.porkbun.com/api/json/v3'', c_timeout = 30000 \<rparr>
     (respond_with
        \<lparr> status = 200, statusText = ''OK'',
          json = JsonValue (JObj [(''status'', JStr ''ERROR''),
                                  (''message'', JStr ''rate limit exceeded'')]) \<rparr>)
     GetPricing =
   Inr (JObj [(''status'', JStr ''ERROR''), (''message'', JStr ''rate limit exceeded'')])"
  by (simp add: getPricing_def respond_with_def ok_def)

section \<open>Limits of a rate limit error\<close>

text \<open>
  C3. The envelope of a rate-limited \<^verbatim>\<open>checkDomain\<close> call carries the structured
  limits (\<^verbatim>\<open>TTL\<close>, \<^verbatim>\<open>limit\<close>, \<^verbatim>\<open>used\<close>, \<^verbatim>\<open>naturalLanguage\<close>). The error that the
  call fails with carries the message, and its \<^verbatim>\<open>limits\<close> field is
  \<^verbatim>\<open>undefined\<close>: the pipeline constructs \<^verbatim>\<open>PorkbunRateLimitError\<close> with the
  message alone.
\<close>

theorem C3_rate_limit_error_has_no_limits:
  "checkDomain
     \<lparr> c_apiKey = ''pk1'', c_secretKey = ''sk1'',
       c_baseUrl = ''https://api.porkbun.com/api/json/v3'', c_timeout = 30000 \<rparr>
     (respond_with
        \<lparr> status = 200, statusText = ''OK'',
          json = JsonValue (JObj
            [(''status'', JStr ''ERROR''),
             (''message'', JStr ''rate limit exceeded''),
             (''limits'', JObj [(''TTL'', JStr ''10''), (''limit'', JStr ''1''),
                                (''used'', JNum 1),
                                (''naturalLanguage'', JStr ''1 of 1 used'')])]) \<rparr>)
     ''example.com'' =
   Inl \<lparr> e_class = PorkbunRateLimitError_class, e_name = ''PorkbunRateLimitError'',
         e_message = ''rate limit exceeded'', e_status = Some ''RATE_LIMIT'',
         e_limits = JUndefined \<rparr>"
  by (simp add: checkDomain_def makeRequest_def try_block_def respond_with_def ok_def
      get_prop_def api_error_def catch_block_def new_PorkbunRateLimitError_def
      new_PorkbunError_def new_Error_def)

section \<open>Other transport statuses\<close>

lemma makeRequest_other_status:
  assumes "fetch (pipeline_request c endpoint data) = Resolves r"
    and "\<not> ok r" and "status r \<noteq> 403"
  shows "makeRequest c fetch endpoint data =
     Inl \<lparr> e_class = Error_class, e_name = ''Error'',
           e_message = ''API request failed: HTTP '' @ show_nat (status r) @ '': ''
                         @ statusText r,
           e_status = None, e_limits = JUndefined \<rparr>"
proof -
  have "try_block c fetch endpoint data =
      Inl (ErrorValue (new_Error (''HTTP '' @ show_nat (status r) @ '': '' @ statusText r)))"
    using try_block_not_ok[of fetch c endpoint data r] assms by simp
  then have "makeRequest c fetch endpoint data =
      Inl (new_Error (''API request failed: '' @
             (''HTTP '' @ show_nat (status r) @ '': '' @ statusText r)))"
    by (simp add: makeRequest_def catch_plain_error)
  then show ?thesis by (simp add: new_Error_def)
qed

text \<open>
  C8 (as amended). For every call of a public operation other than \<^verbatim>\<open>getPricing\<close>,
  when the transport answers with a status outside the range 200 to 299 and other than
  403, the call fails with a plain \<^verbatim>\<open>Error\<close> whose message is
  \<^verbatim>\<open>API request failed: HTTP \<close>, the decimal status, a colon and a space, and the
  status text. The error has the class and the message prefix of the errors raised
  for error envelopes.
\<close>

theorem C8_other_status_is_plain_error:
  assumes "op \<noteq> GetPricing" and "\<forall>req. fetch req = Resolves r"
    and "\<not> ok r" and "status r \<noteq> 403"
  shows "invoke c fetch op =
     Inl \<lparr> e_class = Error_class, e_name = ''Error'',
           e_message = ''API request failed: HTTP '' @ show_nat (status r) @ '': ''
                         @ statusText r,
           e_status = None, e_limits = JUndefined \<rparr> \<and>
     (\<forall>e. invoke c fetch op = Inl e \<longrightarrow> is_api_error e)"
proof -
  have "invoke c fetch op =
     Inl \<lparr> e_class = Error_class, e_name = ''Error'',
           e_message = ''API request failed: HTTP '' @ show_nat (status r) @ '': ''
                         @ statusText r,
           e_status = None, e_limits = JUndefined \<rparr>"
  proof (rule routed_error[OF assms(1)])
    fix endpoint data
    have "fetch (pipeline_request c endpoint data) = Resolves r" using assms(2) by simp
    then show "makeRequest c fetch endpoint data =
       Inl \<lparr> e_class = Error_class, e_name = ''Error'',
             e_message = ''API request failed: HTTP '' @ show_nat (status r) @ '': ''
                           @ statusText r,
             e_status = None, e_limits = JUndefined \<rparr>"
      using assms(3,4) by (rule makeRequest_other_status)
  qed
  then show ?thesis by (simp add: is_api_error_def)
qed

theorem C8_other_status_is_plain_error_witness:
  "invoke
     \<lparr> c_apiKey = ''pk1'', c_secretKey = ''sk1'',
       c_baseUrl = ''https://api.porkbun.com/api/json/v3'', c_timeout = 30000 \<rparr>
     (respond_with
        \<lparr> status = 500, statusText = ''Internal Server Error'', json = JsonValue JNull \<rparr>)
     Ping =
   Inl \<lparr> e_class = Error_class, e_name = ''Error'',
         e_message = ''API request failed: HTTP 500: Internal Server Error'',
         e_status = None, e_limits = JUndefined \<rparr>"
  using C8_other_status_is_plain_error
    [of Ping
        "respond_with
           \<lparr> status = 500, statusText = ''Internal Server Error'',
             json = JsonValue JNull \<rparr>"
        "\<lparr> status = 500, statusText = ''Internal Server Error'',
           json = JsonValue JNull \<rparr>"
        "\<lparr> c_apiKey = ''pk1'', c_secretKey = ''sk1'',
       c_baseUrl = ''https://api.porkbun.com/api/json/v3'', c_timeout = 30000 \<rparr>"]
  by (simp add: respond_with_def ok_def show_nat_500 del: invoke.simps)

text \<open>
  C8 (counterexample). A response with status 500 and a response with status 200 whose
  envelope reports the error \<^verbatim>\<open>HTTP 500: Internal Server Error\<close> make the call fail
  with the same error: the transport failure is not distinct from the API failure.
  \<^verbatim>\<open>getPricing\<close> answered with status 500 fails with another message.
\<close>

theorem C8_transport_error_equals_api_error:
  "makeRequest
     \<lparr> c_apiKey = ''pk1'', c_secretKey = ''sk1'',
       c_baseUrl = ''https://api.porkbun.com/api/json/v3'', c_timeout = 30000 \<rparr>
     (respond_with
        \<lparr> status = 500, statusText = ''Internal Server Error'', json = JsonValue JNull \<rparr>)
     ''/ping'' [] =
   Inl \<lparr> e_class = Error_class, e_name = ''Error'',
         e_message = ''API request failed: HTTP 500: Internal Server Error'',
         e_status = None, e_limits = JUndefined \<rparr> \<and>
   makeRequest
     \<lparr> c_apiKey = ''pk1'', c_secretKey = ''sk1'',
       c_baseUrl = ''https://api.porkbun.com/api/json/v3'', c_timeout = 30000 \<rparr>
     (respond_with
        \<lparr> status = 200, statusText = ''OK'',
          json = JsonValue (JObj [(''status'', JStr ''ERROR''),
                                  (''message'', JStr ''HTTP 500: Internal Server Error'')]) \<rparr>)
     ''/ping'' [] =
   Inl \<lparr> e_class = Error_class, e_name = ''Error'',
         e_message = ''API request failed: HTTP 500: Internal Server Error'',
         e_status = None, e_limits = JUndefined \<rparr> \<and>
   invoke
     \<lparr> c_apiKey = ''pk1'', c_secretKey = ''sk1'',
       c_baseUrl = ''https://api.porkbun.com/api/json/v3'', c_timeout = 30000 \<rparr>
     (respond_with
        \<lparr> status = 500, statusText = ''Internal Server Error'', json = JsonValue JNull \<rparr>)
     GetPricing =
   Inl \<lparr> e_class = Error_class, e_name = ''Error'',
         e_message = ''Failed to get pricing: HTTP 500: Internal Server Error'',
         e_status = None, e_limits = JUndefined \<rparr>"
  by (simp add: makeRequest_def try_block_def getPricing_def respond_with_def ok_def
      get_prop_def api_error_def catch_block_def new_Error_def show_nat_500)

section \<open>Paths of the operations by type\<close>

lemma type_text_last: "type_text t \<noteq> [] \<and> last (type_text t) \<noteq> CHR ''/''"
  by (cases t) simp_all

lemma last_type_segment: "last (p @ ''/'' @ type_text t) \<noteq> CHR ''/''"
  using type_text_last[of t] by simp

text \<open>
  C7. For every domain and record type, the edit, delete and retrieve operations by
  type called with the empty string as subdomain (or with none) send their request to the
  path that ends with the type segment, which does not end with a slash; called with a
  non-empty subdomain they send it to that path followed by a slash and the subdomain
  as it is. The URL of the request is the base URL followed by the path.
\<close>

theorem C7_by_type_paths:
  "(sub = None \<or> sub = Some [] \<longrightarrow>
      editDNSRecordsByType c fetch domain t sub options =
        discard (makeRequest c fetch
          (''/dns/editByNameType/'' @ domain @ ''/'' @ type_text t) options) \<and>
      deleteDNSRecordsByType c fetch domain t sub =
        discard (makeRequest c fetch
          (''/dns/deleteByNameType/'' @ domain @ ''/'' @ type_text t) []) \<and>
      getDNSRecordsByType c fetch domain t sub =
        makeRequest c fetch
          (''/dns/retrieveByNameType/'' @ domain @ ''/'' @ type_text t) []) \<and>
   (\<forall>s. sub = Some s \<and> s \<noteq> [] \<longrightarrow>
      editDNSRecordsByType c fetch domain t sub options =
        discard (makeRequest c fetch
          (''/dns/editByNameType/'' @ domain @ ''/'' @ type_text t @ ''/'' @ s) options) \<and>
      deleteDNSRecordsByType c fetch domain t sub =
        discard (makeRequest c fetch
          (''/dns/deleteByNameType/'' @ domain @ ''/'' @ type_text t @ ''/'' @ s) []) \<and>
      getDNSRecordsByType c fetch domain t sub =
        makeRequest c fetch
          (''/dns/retrieveByNameType/'' @ domain @ ''/'' @ type_text t @ ''/'' @ s) []) \<and>
   last (''/dns/editByNameType/'' @ domain @ ''/'' @ type_text t) \<noteq> CHR ''/'' \<and>
   last (''/dns/deleteByNameType/'' @ domain @ ''/'' @ type_text t) \<noteq> CHR ''/'' \<and>
   last (''/dns/retrieveByNameType/'' @ domain @ ''/'' @ type_text t) \<noteq> CHR ''/'' \<and>
   req_url (pipeline_request c endpoint data) = c_baseUrl c @ endpoint"
proof -
  have l1: "last (''/dns/editByNameType/'' @ domain @ ''/'' @ type_text t) \<noteq> CHR ''/''"
    using last_type_segment[of "''/dns/editByNameType/'' @ domain" t] by simp
  have l2: "last (''/dns/deleteByNameType/'' @ domain @ ''/'' @ type_text t) \<noteq> CHR ''/''"
    using last_type_segment[of "''/dns/deleteByNameType/'' @ domain" t] by simp
  have l3: "last (''/dns/retrieveByNameType/'' @ domain @ ''/'' @ type_text t) \<noteq> CHR ''/''"
    using last_type_segment[of "''/dns/retrieveByNameType/'' @ domain" t] by simp
  have url: "req_url (pipeline_request c endpoint data) = c_baseUrl c @ endpoint"
    by (simp add: pipeline_request_def)
  show ?thesis
    using l1 l2 l3 url
    by (auto simp: editDNSRecordsByType_def deleteDNSRecordsByType_def
        getDNSRecordsByType_def default_empty_def Let_def)
qed

theorem C7_by_type_paths_witness:
  "deleteDNSRecordsByType
     \<lparr> c_apiKey = ''pk1'', c_secretKey = ''sk1'',
       c_baseUrl = ''https://api.porkbun.com/api/json/v3'', c_timeout = 30000 \<rparr>
     (respond_with \<lparr> status = 200, statusText = ''OK'',
                     json = JsonValue (JObj [(''status'', JStr ''SUCCESS'')]) \<rparr>)
     ''example.com'' DNS_TXT (Some ''www'') =
   discard (makeRequest
     \<lparr> c_apiKey = ''pk1'', c_secretKey = ''sk1'',
       c_baseUrl = ''https://api.porkbun.com/api/json/v3'', c_timeout = 30000 \<rparr>
     (respond_with \<lparr> status = 200, statusText = ''OK'',
                     json = JsonValue (JObj [(''status'', JStr ''SUCCESS'')]) \<rparr>)
     ''/dns/deleteByNameType/example.com/TXT/www'' []) \<and>
   deleteDNSRecordsByType
     \<lparr> c_apiKey = ''pk1'', c_secretKey = ''sk1'',
       c_baseUrl = ''https://api.porkbun.com/api/json/v3'', c_timeout = 30000 \<rparr>
     (respond_with \<lparr> status = 200, statusText = ''OK'',
                     json = JsonValue (JObj [(''status'', JStr ''SUCCESS'')]) \<rparr>)
     ''example.com'' DNS_TXT (Some []) =
   discard (makeRequest
     \<lparr> c_apiKey = ''pk1'', c_secretKey = ''sk1'',
       c_baseUrl = ''https://api.porkbun.com/api/json/v3'', c_timeout = 30000 \<rparr>
     (respond_with \<lparr> status = 200, statusText = ''OK'',
                     json = JsonValue (JObj [(''status'', JStr ''SUCCESS'')]) \<rparr>)
     ''/dns/deleteByNameType/example.com/TXT'' [])"
  using
    C7_by_type_paths
      [of "Some ''www''"
          "\<lparr> c_apiKey = ''pk1'', c_secretKey = ''sk1'',
             c_baseUrl = ''https://api.porkbun.com/api/json/v3'', c_timeout = 30000 \<rparr>"
          "respond_with \<lparr> status = 200, statusText = ''OK'',
                           json = JsonValue (JObj [(''status'', JStr ''SUCCESS'')]) \<rparr>"
          "''example.com''" DNS_TXT "[]"]
    C7_by_type_paths
      [of "Some []"
          "\<lparr> c_apiKey = ''pk1'', c_secretKey = ''sk1'',
             c_baseUrl = ''https://api.porkbun.com/api/json/v3'', c_timeout = 30000 \<rparr>"
          "respond_with \<lparr> status = 200, statusText = ''OK'',
                           json = JsonValue (JObj [(''status'', JStr ''SUCCESS'')]) \<rparr>"
          "''example.com''" DNS_TXT "[]"]
  by simp

section \<open>Timeout\<close>










section \<open>Construction: falsy configuration values\<close>

text \<open>
  C10. A configured timeout of 0 and a configured base URL of the empty string are
  replaced by the defaults, 30000 ms and the production base URL, because the
  constructor tests the configured values for truthiness. No configuration therefore
  yields a client whose timeout is 0 or whose base URL is empty.
\<close>

theorem C10_falsy_config_gets_defaults:
  "(timeout config = Some 0 \<longrightarrow> c_timeout (new_PorkbunClient config) = 30000) \<and>
   (baseUrl config = Some [] \<longrightarrow>
      c_baseUrl (new_PorkbunClient config) = ''https://api.porkbun.com/api/json/v3'') \<and>
   c_timeout (new_PorkbunClient config) \<noteq> 0 \<and>
   c_baseUrl (new_PorkbunClient config) \<noteq> []"
  by (simp add: new_PorkbunClient_def or_number_def or_string_def default_baseUrl_def
      split: option.splits)

theorem C10_falsy_config_gets_defaults_witness:
  "c_timeout (new_PorkbunClient
      \<lparr> apiKey = ''pk1'', secretKey = ''sk1'', baseUrl = Some [], timeout = Some 0 \<rparr>) = 30000 \<and>
   c_baseUrl (new_PorkbunClient
      \<lparr> apiKey = ''pk1'', secretKey = ''sk1'', baseUrl = Some [], timeout = Some 0 \<rparr>)
     = ''https://api.porkbun.com/api/json/v3''"
  using C10_falsy_config_gets_defaults
    [of "\<lparr> apiKey = ''pk1'', secretKey = ''sk1'', baseUrl = Some [], timeout = Some 0 \<rparr>"]
  by simp

end
